theory Spec2Isabelle
  imports Main
begin

section \<open>Python values, objects and exceptions\<close>

text \<open>
  The values a field of a token can hold: \<open>None\<close>, an integer, a string, a raw
  \<open>bson.objectid.ObjectId\<close>, or a reference to an object. A reference is the address of
  the object, so two references are equal exactly when they denote the same object
  (Python's \<open>is\<close>); two different objects may well carry the same contents.
\<close>

type_synonym addr = nat

datatype pyval = PyNone | PyInt int | PyStr string | ObjectId nat | PyRef addr

text \<open>
  The objects references point to. \<open>EntityObj i\<close> is an instance of \<open>Entity\<close> (or of a
  subclass) whose attribute \<open>id\<close> holds \<open>i\<close>. \<open>OtherObj a\<close> is an instance of any other
  class; \<open>a\<close> is its attribute \<open>id\<close> when it has one.
\<close>

datatype pyobject = EntityObj pyval | OtherObj "pyval option"

text \<open>
  The heap maps every address to the object that lives there. The methods of \<open>Token\<close>
  read the referenced objects and assign attributes of the token only, so the heap is an
  argument that they do not return.
\<close>

type_synonym heap = "addr \<Rightarrow> pyobject"

datatype pyerror = AttributeError string | IndexError | Raised string

text \<open>
  \<open>v.id\<close>: integers, strings and \<open>ObjectId\<close>s have no attribute \<open>id\<close>
  (an \<open>ObjectId\<close> offers \<open>binary\<close> and \<open>generation_time\<close> only).
\<close>

fun attr_id :: "heap \<Rightarrow> pyval \<Rightarrow> pyerror + pyval" where
  "attr_id h (PyRef a) =
     (case h a of
        EntityObj i \<Rightarrow> Inr i
      | OtherObj (Some i) \<Rightarrow> Inr i
      | OtherObj None \<Rightarrow> Inl (AttributeError ''id''))"
| "attr_id h v = Inl (AttributeError ''id'')"

text \<open>\<open>isinstance(v, Entity)\<close>\<close>

fun isinstance_Entity :: "heap \<Rightarrow> pyval \<Rightarrow> bool" where
  "isinstance_Entity h (PyRef a) = (case h a of EntityObj i \<Rightarrow> True | OtherObj x \<Rightarrow> False)"
| "isinstance_Entity h v = False"


section \<open>Statements that read and assign attributes, and may raise\<close>

text \<open>
  A method body is a function from the state of the objects it works on to its outcome
  (the exception raised, or the value returned) and the state it leaves behind.
\<close>

type_synonym ('s, 'a) py = "'s \<Rightarrow> (pyerror + 'a) \<times> 's"

definition py_return :: "'a \<Rightarrow> ('s, 'a) py" where
  "py_return x s = (Inr x, s)"

definition py_raise :: "pyerror \<Rightarrow> ('s, 'a) py" where
  "py_raise e s = (Inl e, s)"

definition py_bind :: "('s, 'a) py \<Rightarrow> ('a \<Rightarrow> ('s, 'b) py) \<Rightarrow> ('s, 'b) py" where
  "py_bind m k s = (case m s of (Inl e, s') \<Rightarrow> (Inl e, s') | (Inr x, s') \<Rightarrow> k x s')"

definition py_then :: "('s, unit) py \<Rightarrow> ('s, 'b) py \<Rightarrow> ('s, 'b) py" where
  "py_then m k = py_bind m (\<lambda>u. k)"

text \<open>An expression that cannot change the state: it raises or yields a value.\<close>

definition py_eval :: "pyerror + 'a \<Rightarrow> ('s, 'a) py" where
  "py_eval r s = (r, s)"

text \<open>Reading an attribute that \<open>__init__\<close> has set.\<close>

definition py_get :: "('s \<Rightarrow> 'a) \<Rightarrow> ('s, 'a) py" where
  "py_get sel s = (Inr (sel s), s)"

text \<open>
  Reading an attribute that may never have been assigned: \<open>None\<close> in the model is the
  absent attribute, and the read raises \<open>AttributeError\<close>.
\<close>

definition getattr :: "('s \<Rightarrow> 'a option) \<Rightarrow> string \<Rightarrow> ('s, 'a) py" where
  "getattr sel name s =
     (case sel s of None \<Rightarrow> (Inl (AttributeError name), s) | Some v \<Rightarrow> (Inr v, s))"

text \<open>Assigning attributes.\<close>

definition py_assign :: "('s \<Rightarrow> 's) \<Rightarrow> ('s, unit) py" where
  "py_assign f s = (Inr (), f s)"


section \<open>The token\<close>

text \<open>
  The attributes of a \<open>Token\<close>. Those that \<open>__init__\<close> assigns are always present. The
  feature attributes \<open>form\<close>, \<open>lemmata\<close>, \<open>semantic\<close>, \<open>sound\<close> and the temporary attribute
  \<open>_ignore\<close> exist only once something has assigned them.
\<close>

record token =
  id_attr :: pyval
  text_attr :: pyval
  index :: pyval
  display :: pyval
  feature_set :: pyval
  line :: pyval
  phrase :: pyval
  frequency :: pyval
  ignore :: "pyval list option"
  form :: "string option"
  lemmata :: "string list option"
  semantic :: "string list option"
  sound :: "string list option"

text \<open>
  Modelled from the spec: \<open>Entity.__init__\<close> (module \<open>tesserae.db.entities.entity\<close>) is
  not among the sources. The spec gives an entity the field \<open>id\<close>, null until the
  persistence layer assigns it, and says that the feature attributes are not set by
  construction; so the base constructor assigns \<open>id\<close> and nothing else that a token uses.
\<close>

definition Entity_init :: "pyval \<Rightarrow> token" where
  "Entity_init i =
     \<lparr>id_attr = i, text_attr = PyNone, index = PyNone, display = PyNone, feature_set = PyNone,
      line = PyNone, phrase = PyNone, frequency = PyNone,
      ignore = None, form = None, lemmata = None, semantic = None, sound = None\<rparr>"

text \<open>\<open>Token.__init__\<close>; every parameter defaults to \<open>None\<close>.\<close>

definition Token_init ::
  "pyval \<Rightarrow> pyval \<Rightarrow> pyval \<Rightarrow> pyval \<Rightarrow> pyval \<Rightarrow> pyval \<Rightarrow> pyval \<Rightarrow> pyval \<Rightarrow> token" where
  "Token_init i txt idx disp fs ln phr freq =
     (Entity_init i)\<lparr>text_attr := txt, index := idx, display := disp, feature_set := fs,
                     line := ln, phrase := phr, frequency := freq\<rparr>"


section \<open>match\<close>

text \<open>
  \<open>len(set(self.f) & set(other.f)) > 0\<close> for a feature attribute \<open>f\<close>. The state is the
  pair of \<open>self\<close> and \<open>other\<close>; \<open>self.f\<close> is read first.
\<close>

definition intersects ::
  "(token \<Rightarrow> string list option) \<Rightarrow> string \<Rightarrow> (token \<times> token, bool) py" where
  "intersects f name =
     py_bind (getattr (f \<circ> fst) name) (\<lambda>a.
     py_bind (getattr (f \<circ> snd) name) (\<lambda>b.
     py_return (0 < card (set a \<inter> set b))))"

text \<open>\<open>self.match(other, feature)\<close> is \<open>match feature (self, other)\<close>.\<close>

definition match :: "string \<Rightarrow> (token \<times> token, bool) py" where
  "match feature =
     (if feature = ''word'' then
        py_bind (getattr (form \<circ> fst) ''form'') (\<lambda>a.
        py_bind (getattr (form \<circ> snd) ''form'') (\<lambda>b.
        py_return (a = b)))
      else if feature = ''lemmata'' then intersects lemmata ''lemmata''
      else if feature = ''semantic'' then intersects semantic ''semantic''
      else if feature = ''sound'' then intersects sound ''sound''
      else
        py_bind (intersects lemmata ''lemmata'') (\<lambda>l.
        if l then intersects semantic ''semantic'' else py_return False))"


section \<open>json_encode\<close>

text \<open>
  The first line,
  \<open>self._ignore = [self.text, self.feature_set, self.line, self.phrase, self.frequency]\<close>.
\<close>

definition stash :: "token \<Rightarrow> token" where
  "stash self = self\<lparr>ignore :=
     Some [text_attr self, feature_set self, line self, phrase self, frequency self]\<rparr>"

text \<open>
  One line of the save step, \<open>self.x = self.x.id if self.x is not None else None\<close>,
  for the attribute read by \<open>get\<close> and assigned by \<open>put\<close>.
\<close>

definition substitute ::
  "heap \<Rightarrow> (token \<Rightarrow> pyval) \<Rightarrow> (pyval \<Rightarrow> token \<Rightarrow> token) \<Rightarrow> (token, unit) py" where
  "substitute h get put =
     py_bind (py_get get) (\<lambda>v.
     py_bind (if v \<noteq> PyNone then py_eval (attr_id h v) else py_return PyNone) (\<lambda>i.
     py_assign (put i)))"

text \<open>The five lines of the save step, in the order of the source.\<close>

definition save_ids :: "heap \<Rightarrow> (token, unit) py" where
  "save_ids h =
     py_then (substitute h text_attr (\<lambda>i self. self\<lparr>text_attr := i\<rparr>))
    (py_then (substitute h feature_set (\<lambda>i self. self\<lparr>feature_set := i\<rparr>))
    (py_then (substitute h line (\<lambda>i self. self\<lparr>line := i\<rparr>))
    (py_then (substitute h phrase (\<lambda>i self. self\<lparr>phrase := i\<rparr>))
            (substitute h frequency (\<lambda>i self. self\<lparr>frequency := i\<rparr>)))))"

text \<open>
  One line of the restore step, \<open>self.x = self._ignore[n]\<close>: the read of \<open>_ignore\<close>
  raises when the attribute is gone, the subscript when the list is too short.
\<close>

definition restore :: "nat \<Rightarrow> (pyval \<Rightarrow> token \<Rightarrow> token) \<Rightarrow> (token, unit) py" where
  "restore n put =
     py_bind (getattr ignore ''_ignore'') (\<lambda>vs.
     if n < length vs then py_assign (put (vs ! n)) else py_raise IndexError)"

text \<open>\<open>del self._ignore\<close>\<close>

definition del_ignore :: "(token, unit) py" where
  "del_ignore =
     py_bind (getattr ignore ''_ignore'') (\<lambda>vs. py_assign (\<lambda>self. self\<lparr>ignore := None\<rparr>))"

definition restore_refs :: "(token, unit) py" where
  "restore_refs =
     py_then (restore 0 (\<lambda>v self. self\<lparr>text_attr := v\<rparr>))
    (py_then (restore 1 (\<lambda>v self. self\<lparr>feature_set := v\<rparr>))
    (py_then (restore 2 (\<lambda>v self. self\<lparr>line := v\<rparr>))
    (py_then (restore 3 (\<lambda>v self. self\<lparr>phrase := v\<rparr>))
    (py_then (restore 4 (\<lambda>v self. self\<lparr>frequency := v\<rparr>))
             del_ignore))))"

text \<open>
  \<open>Token.json_encode\<close>. The encoder of the base class,
  \<open>super(Token, self).json_encode(exclude=exclude)\<close>, is not among the sources and is the
  parameter \<open>base\<close>: any method body on the token, which may raise and may assign
  attributes. \<open>exclude\<close> is \<open>None\<close> or a list of attribute names.
\<close>

definition json_encode ::
  "heap \<Rightarrow> (string list option \<Rightarrow> (token, 'obj) py) \<Rightarrow> string list option \<Rightarrow> (token, 'obj) py"
  where
  "json_encode h base exclude =
     py_then (py_assign stash)
    (py_then (save_ids h)
    (py_bind (base exclude) (\<lambda>obj.
     py_then restore_refs
    (py_return obj))))"


section \<open>unique_values\<close>

definition unique_values :: "heap \<Rightarrow> (token, string \<rightharpoonup> pyval) py" where
  "unique_values h =
     py_bind (py_get text_attr) (\<lambda>v.
     py_bind (if isinstance_Entity h v then py_eval (attr_id h v) else py_return v) (\<lambda>x.
     py_bind (py_get index) (\<lambda>i.
     py_return [''text'' \<mapsto> x, ''index'' \<mapsto> i])))"


section \<open>Preconditions and example objects\<close>

text \<open>
  The attributes that the branch of \<open>match\<close> for a feature reads are present on a token.
\<close>

definition populated :: "string \<Rightarrow> token \<Rightarrow> bool" where
  "populated feature t =
     (if feature = ''word'' then form t \<noteq> None
      else if feature = ''lemmata'' then lemmata t \<noteq> None
      else if feature = ''semantic'' then semantic t \<noteq> None
      else if feature = ''sound'' then sound t \<noteq> None
      else lemmata t \<noteq> None \<and> semantic t \<noteq> None)"

text \<open>None of the four feature attributes has ever been assigned.\<close>

definition unenriched :: "token \<Rightarrow> bool" where
  "unenriched t = (form t = None \<and> lemmata t = None \<and> semantic t = None \<and> sound t = None)"

text \<open>
  Modelled from the spec: the feature-enrichment step is external to the sources; the spec
  says that it populates \<open>form\<close>, \<open>lemmata\<close>, \<open>semantic\<close> and \<open>sound\<close> after construction.
  It is used for the example tokens only.
\<close>

definition enrich ::
  "string \<Rightarrow> string list \<Rightarrow> string list \<Rightarrow> string list \<Rightarrow> token \<Rightarrow> token" where
  "enrich fo le se so t =
     t\<lparr>form := Some fo, lemmata := Some le, semantic := Some se, sound := Some so\<rparr>"

definition token_A :: token where
  "token_A = enrich ''amo'' [''amo'', ''amare''] [''love''] [''am'', ''mo'']
     (Token_init PyNone (ObjectId 7) (PyInt 0) (PyStr ''Amo'') PyNone PyNone PyNone PyNone)"

definition token_B :: token where
  "token_B = enrich ''habeo'' [''amare'', ''habeo''] [''have''] [''ha'', ''be'']
     (Token_init PyNone (ObjectId 7) (PyInt 1) (PyStr ''habeo'') PyNone PyNone PyNone PyNone)"

text \<open>
  A field holds a value other than \<open>None\<close> that has no attribute \<open>id\<close>: a raw identifier
  where \<open>json_encode\<close> expects an entity.
\<close>

definition lacks_id :: "heap \<Rightarrow> pyval \<Rightarrow> bool" where
  "lacks_id h v = (v \<noteq> PyNone \<and> (case attr_id h v of Inl e \<Rightarrow> True | Inr i \<Rightarrow> False))"

text \<open>The value of \<open>v.id if v is not None else None\<close>, or the exception it raises.\<close>

definition id_or_None :: "heap \<Rightarrow> pyval \<Rightarrow> pyerror + pyval" where
  "id_or_None h v = (if v \<noteq> PyNone then attr_id h v else Inr PyNone)"

text \<open>
  The base encoder neither assigns nor deletes \<open>_ignore\<close>, the temporary attribute that
  \<open>Token.json_encode\<close> keeps for itself.
\<close>

definition leaves_ignore :: "(string list option \<Rightarrow> (token, 'obj) py) \<Rightarrow> bool" where
  "leaves_ignore base = (\<forall>exclude S. ignore (snd (base exclude S)) = ignore S)"

text \<open>
  A heap with five entities at the addresses 10 to 14, whose ids are the \<open>ObjectId\<close>s
  110 to 114; a token that references them; and a token whose \<open>feature_set\<close> is a raw
  \<open>ObjectId\<close>.
\<close>

definition heap_0 :: heap where
  "heap_0 a = (if 10 \<le> a \<and> a < 15 then EntityObj (ObjectId (100 + a)) else OtherObj None)"

definition token_E :: token where
  "token_E = Token_init PyNone (PyRef 10) (PyInt 3) (PyStr ''cano'')
     (PyRef 11) (PyRef 12) (PyRef 13) (PyRef 14)"

definition token_F :: token where
  "token_F = Token_init PyNone (PyRef 10) (PyInt 3) (PyStr ''cano'')
     (ObjectId 111) PyNone PyNone PyNone"

text \<open>The text of \<open>token_E\<close> again, held as the raw identifier instead of the entity.\<close>

definition token_G :: token where
  "token_G = Token_init PyNone (ObjectId 110) (PyInt 3) (PyStr ''cano'')
     PyNone PyNone PyNone PyNone"

text \<open>
  Modelled from the spec: two stand-ins for the base encoder, for the examples only. The
  spec says that the base encoder passes the fields through, with \<open>exclude\<close> naming the
  fields to omit. The second one raises.
\<close>

definition example_encoder :: "string list option \<Rightarrow> (token, (string \<times> pyval) list) py" where
  "example_encoder exclude self =
     (Inr (filter (\<lambda>kv. fst kv \<notin> set (case exclude of None \<Rightarrow> [] | Some ns \<Rightarrow> ns))
        [(''id'', id_attr self), (''text'', text_attr self), (''index'', index self),
         (''display'', display self), (''feature_set'', feature_set self),
         (''line'', line self), (''phrase'', phrase self), (''frequency'', frequency self)]),
      self)"

definition failing_encoder :: "string list option \<Rightarrow> (token, (string \<times> pyval) list) py" where
  "failing_encoder exclude self = (Inl (Raised ''TypeError''), self)"

text \<open>Two tokens on which only \<open>form\<close> has been assigned.\<close>

definition token_C :: token where
  "token_C = (Token_init PyNone (ObjectId 7) (PyInt 2) (PyStr ''Arma'') PyNone PyNone PyNone PyNone)
     \<lparr>form := Some ''arma''\<rparr>"

definition token_D :: token where
  "token_D = (Token_init PyNone (ObjectId 8) (PyInt 5) (PyStr ''arma'') PyNone PyNone PyNone PyNone)
     \<lparr>form := Some ''arma''\<rparr>"


section \<open>Basic facts\<close>

lemmas py_defs = py_return_def py_raise_def py_bind_def py_then_def py_eval_def py_get_def
  getattr_def py_assign_def

lemmas token_defs = token_A_def token_B_def token_C_def token_D_def token_E_def token_F_def
  token_G_def enrich_def Token_init_def Entity_init_def

lemma card_inter_pos: "(0 < card (set a \<inter> set b)) = (set a \<inter> set b \<noteq> {})"
  by (simp add: card_gt_0_iff)

text \<open>What the two reads and the intersection test come to.\<close>

lemma intersects_eq:
  "intersects f name (A, B) =
     (case f A of None \<Rightarrow> Inl (AttributeError name)
      | Some a \<Rightarrow> (case f B of None \<Rightarrow> Inl (AttributeError name)
                   | Some b \<Rightarrow> Inr (set a \<inter> set b \<noteq> {})), A, B)"
  by (simp add: intersects_def py_defs card_inter_pos split: option.splits)

lemma word_eq:
  "py_bind (getattr (form \<circ> fst) ''form'') (\<lambda>a.
   py_bind (getattr (form \<circ> snd) ''form'') (\<lambda>b. py_return (a = b))) (A, B) =
     (case form A of None \<Rightarrow> Inl (AttributeError ''form'')
      | Some a \<Rightarrow> (case form B of None \<Rightarrow> Inl (AttributeError ''form'')
                   | Some b \<Rightarrow> Inr (a = b)), A, B)"
  by (simp add: py_defs split: option.splits)

lemma fallback_eq:
  "py_bind (intersects lemmata ''lemmata'') (\<lambda>l.
     if l then intersects semantic ''semantic'' else py_return False) (A, B) =
   (case fst (intersects lemmata ''lemmata'' (A, B)) of
      Inl e \<Rightarrow> Inl e
    | Inr l \<Rightarrow> if l then fst (intersects semantic ''semantic'' (A, B)) else Inr False, A, B)"
  by (simp add: py_bind_def py_return_def intersects_eq split: option.splits)

text \<open>The branches of \<open>match\<close>, one equation each.\<close>

lemma match_word_eq:
  "match ''word'' =
     py_bind (getattr (form \<circ> fst) ''form'') (\<lambda>a.
     py_bind (getattr (form \<circ> snd) ''form'') (\<lambda>b. py_return (a = b)))"
  by (simp add: match_def)

lemma match_lemmata_eq: "match ''lemmata'' = intersects lemmata ''lemmata''"
  by (simp add: match_def)

lemma match_semantic_eq: "match ''semantic'' = intersects semantic ''semantic''"
  by (simp add: match_def)

lemma match_sound_eq: "match ''sound'' = intersects sound ''sound''"
  by (simp add: match_def)

lemma match_other_eq:
  "f \<noteq> ''word'' \<Longrightarrow> f \<noteq> ''lemmata'' \<Longrightarrow> f \<noteq> ''semantic'' \<Longrightarrow> f \<noteq> ''sound'' \<Longrightarrow>
   match f = py_bind (intersects lemmata ''lemmata'') (\<lambda>l.
               if l then intersects semantic ''semantic'' else py_return False)"
  by (simp add: match_def)

lemmas match_named_eqs = match_word_eq match_lemmata_eq match_semantic_eq match_sound_eq

lemma match_cases:
  obtains "f = ''word''" | "f = ''lemmata''" | "f = ''semantic''" | "f = ''sound''"
  | "f \<noteq> ''word''" "f \<noteq> ''lemmata''" "f \<noteq> ''semantic''" "f \<noteq> ''sound''"
  by blast

lemma intersects_sym: "fst (intersects f name (A, B)) = fst (intersects f name (B, A))"
  by (simp add: intersects_eq Int_commute split: option.splits)

lemma word_sym:
  "fst (py_bind (getattr (form \<circ> fst) ''form'') (\<lambda>a.
        py_bind (getattr (form \<circ> snd) ''form'') (\<lambda>b. py_return (a = b))) (A, B)) =
   fst (py_bind (getattr (form \<circ> fst) ''form'') (\<lambda>a.
        py_bind (getattr (form \<circ> snd) ''form'') (\<lambda>b. py_return (a = b))) (B, A))"
  by (auto simp add: word_eq split: option.splits)

lemma fallback_sym:
  "fst (py_bind (intersects lemmata ''lemmata'') (\<lambda>l.
        if l then intersects semantic ''semantic'' else py_return False) (A, B)) =
   fst (py_bind (intersects lemmata ''lemmata'') (\<lambda>l.
        if l then intersects semantic ''semantic'' else py_return False) (B, A))"
  by (simp add: fallback_eq intersects_eq Int_commute split: option.splits)

lemma match_state: "snd (match f (A, B)) = (A, B)"
proof (cases f rule: match_cases)
  case 5
  show ?thesis unfolding match_other_eq [OF 5] by (simp add: fallback_eq)
qed (simp_all add: match_named_eqs word_eq intersects_eq)


text \<open>Facts about \<open>.id\<close> and the save step.\<close>

lemma attr_id_outcome: "(\<exists>i. attr_id h v = Inr i) \<or> attr_id h v = Inl (AttributeError ''id'')"
  by (cases v) (simp_all split: pyobject.splits option.splits)

lemma lacks_id_not_entity: "lacks_id h v \<Longrightarrow> \<not> isinstance_Entity h v"
  by (cases v) (auto simp add: lacks_id_def split: pyobject.splits)

lemma entity_has_id: "isinstance_Entity h v \<Longrightarrow> v \<noteq> PyNone \<and> (\<exists>i. attr_id h v = Inr i)"
  by (cases v) (auto split: pyobject.splits)

lemma id_or_None_outcome:
  "(\<exists>i. id_or_None h v = Inr i \<and> \<not> lacks_id h v)
   \<or> (id_or_None h v = Inl (AttributeError ''id'') \<and> lacks_id h v)"
  using attr_id_outcome [of h v] by (auto simp add: id_or_None_def lacks_id_def)

lemma substitute_eq:
  "substitute h get put T =
     (case id_or_None h (get T) of Inl e \<Rightarrow> (Inl e, T) | Inr i \<Rightarrow> (Inr (), put i T))"
  by (simp add: substitute_def id_or_None_def py_defs split: sum.splits)

lemma save_ids_eq:
  "save_ids h T =
     (case id_or_None h (text_attr T) of Inl e \<Rightarrow> (Inl e, T) | Inr i1 \<Rightarrow>
     (case id_or_None h (feature_set T) of Inl e \<Rightarrow> (Inl e, T\<lparr>text_attr := i1\<rparr>) | Inr i2 \<Rightarrow>
     (case id_or_None h (line T) of
        Inl e \<Rightarrow> (Inl e, T\<lparr>text_attr := i1, feature_set := i2\<rparr>) | Inr i3 \<Rightarrow>
     (case id_or_None h (phrase T) of
        Inl e \<Rightarrow> (Inl e, T\<lparr>text_attr := i1, feature_set := i2, line := i3\<rparr>) | Inr i4 \<Rightarrow>
     (case id_or_None h (frequency T) of
        Inl e \<Rightarrow> (Inl e, T\<lparr>text_attr := i1, feature_set := i2, line := i3, phrase := i4\<rparr>)
      | Inr i5 \<Rightarrow>
          (Inr (), T\<lparr>text_attr := i1, feature_set := i2, line := i3, phrase := i4,
                     frequency := i5\<rparr>))))))"
  by (simp add: save_ids_def py_then_def py_bind_def substitute_eq split: sum.splits)

lemma save_ids_ignore: "ignore (snd (save_ids h T)) = ignore T"
  by (simp add: save_ids_eq split: sum.splits)

lemma save_ids_fail:
  assumes "lacks_id h (text_attr T) \<or> lacks_id h (feature_set T) \<or> lacks_id h (line T)
           \<or> lacks_id h (phrase T) \<or> lacks_id h (frequency T)"
  shows "fst (save_ids h T) = Inl (AttributeError ''id'')"
  using assms id_or_None_outcome [of h "text_attr T"] id_or_None_outcome [of h "feature_set T"]
    id_or_None_outcome [of h "line T"] id_or_None_outcome [of h "phrase T"]
    id_or_None_outcome [of h "frequency T"]
  by (auto simp add: save_ids_eq)

lemma save_ids_ok:
  assumes "\<not> lacks_id h (text_attr T)" "\<not> lacks_id h (feature_set T)" "\<not> lacks_id h (line T)"
    "\<not> lacks_id h (phrase T)" "\<not> lacks_id h (frequency T)"
  shows "fst (save_ids h T) = Inr ()"
  using assms id_or_None_outcome [of h "text_attr T"] id_or_None_outcome [of h "feature_set T"]
    id_or_None_outcome [of h "line T"] id_or_None_outcome [of h "phrase T"]
    id_or_None_outcome [of h "frequency T"]
  by (auto simp add: save_ids_eq)

lemma restore_eq:
  "ignore T = Some vs \<Longrightarrow> n < length vs \<Longrightarrow> restore n put T = (Inr (), put (vs ! n) T)"
  by (simp add: restore_def py_defs)

lemma restore_refs_eq:
  "ignore T = Some [v1, v2, v3, v4, v5] \<Longrightarrow>
   restore_refs T = (Inr (), T\<lparr>text_attr := v1, feature_set := v2, line := v3, phrase := v4,
                                frequency := v5, ignore := None\<rparr>)"
  by (simp add: restore_refs_def del_ignore_def restore_def py_defs)

lemma json_encode_eq:
  "json_encode h base exclude T =
     (case save_ids h (stash T) of
        (Inl e, T1) \<Rightarrow> (Inl e, T1)
      | (Inr u, T1) \<Rightarrow>
          (case base exclude T1 of
             (Inl e, T2) \<Rightarrow> (Inl e, T2)
           | (Inr obj, T2) \<Rightarrow>
               (case restore_refs T2 of
                  (Inl e, T3) \<Rightarrow> (Inl e, T3)
                | (Inr u, T3) \<Rightarrow> (Inr obj, T3))))"
  by (simp add: json_encode_def py_defs split: prod.splits sum.splits)

lemma stash_fields:
  "text_attr (stash T) = text_attr T" "feature_set (stash T) = feature_set T"
  "line (stash T) = line T" "phrase (stash T) = phrase T" "frequency (stash T) = frequency T"
  "ignore (stash T) = Some [text_attr T, feature_set T, line T, phrase T, frequency T]"
  by (simp_all add: stash_def)

lemma json_encode_ok:
  assumes s: "save_ids h (stash T) = (Inr (), T1)" and b: "base exclude T1 = (Inr obj, T2)"
    and i: "ignore T2 = ignore T1"
  shows "json_encode h base exclude T =
          (Inr obj, T2\<lparr>text_attr := text_attr T, feature_set := feature_set T, line := line T,
                       phrase := phrase T, frequency := frequency T, ignore := None\<rparr>)"
proof -
  from save_ids_ignore [of h "stash T"] s
  have "ignore T1 = Some [text_attr T, feature_set T, line T, phrase T, frequency T]"
    by (simp add: stash_fields)
  with i have "ignore T2 = Some [text_attr T, feature_set T, line T, phrase T, frequency T]"
    by simp
  from restore_refs_eq [OF this] s b show ?thesis
    by (simp add: json_encode_eq)
qed

lemma entity_not_lacking: "v = PyNone \<or> isinstance_Entity h v \<Longrightarrow> \<not> lacks_id h v"
  using lacks_id_not_entity [of h v] by (auto simp add: lacks_id_def)

lemma unique_values_eq:
  "unique_values h T =
     (Inr [''text'' \<mapsto> (case (if isinstance_Entity h (text_attr T) then attr_id h (text_attr T)
                              else Inr (text_attr T)) of Inr x \<Rightarrow> x | Inl e \<Rightarrow> PyNone),
           ''index'' \<mapsto> index T], T)"
  using entity_has_id [of h "text_attr T"]
  by (auto simp add: unique_values_def py_defs)

text \<open>The example heap and tokens, evaluated.\<close>

lemma heap_0_ids:
  "10 \<le> a \<Longrightarrow> a < 15 \<Longrightarrow> id_or_None heap_0 (PyRef a) = Inr (ObjectId (100 + a))"
  "id_or_None heap_0 (ObjectId n) = Inl (AttributeError ''id'')"
  "id_or_None heap_0 PyNone = Inr PyNone"
  by (simp_all add: id_or_None_def heap_0_def)

lemma token_E_fields:
  "text_attr token_E = PyRef 10" "feature_set token_E = PyRef 11" "line token_E = PyRef 12"
  "phrase token_E = PyRef 13" "frequency token_E = PyRef 14" "ignore token_E = None"
  by (simp_all add: token_defs)

lemma token_F_fields:
  "text_attr token_F = PyRef 10" "feature_set token_F = ObjectId 111" "line token_F = PyNone"
  "phrase token_F = PyNone" "frequency token_F = PyNone" "ignore token_F = None"
  by (simp_all add: token_defs)

lemma save_token_E:
  "save_ids heap_0 (stash token_E) =
     (Inr (), (stash token_E)\<lparr>text_attr := ObjectId 110, feature_set := ObjectId 111,
        line := ObjectId 112, phrase := ObjectId 113, frequency := ObjectId 114\<rparr>)"
  by (simp add: save_ids_eq stash_fields token_E_fields heap_0_ids)

lemma save_token_F:
  "save_ids heap_0 (stash token_F) =
     (Inl (AttributeError ''id''), (stash token_F)\<lparr>text_attr := ObjectId 110\<rparr>)"
  by (simp add: save_ids_eq stash_fields token_F_fields heap_0_ids)

lemma leaves_ignore_example: "leaves_ignore example_encoder"
  by (simp add: leaves_ignore_def example_encoder_def)

lemma heap_0_entities: "10 \<le> a \<Longrightarrow> a < 15 \<Longrightarrow> isinstance_Entity heap_0 (PyRef a)"
  by (simp add: heap_0_def)

lemma restored_token_E:
  "(stash token_E)\<lparr>text_attr := ObjectId 110, feature_set := ObjectId 111,
        line := ObjectId 112, phrase := ObjectId 113, frequency := ObjectId 114\<rparr>
     \<lparr>text_attr := text_attr token_E, feature_set := feature_set token_E, line := line token_E,
      phrase := phrase token_E, frequency := frequency token_E, ignore := None\<rparr> = token_E"
  by (simp add: stash_def token_defs)

lemma encode_token_E:
  "json_encode heap_0 example_encoder (Some [''display'']) token_E =
     (Inr [(''id'', PyNone), (''text'', ObjectId 110), (''index'', PyInt 3),
           (''feature_set'', ObjectId 111), (''line'', ObjectId 112),
           (''phrase'', ObjectId 113), (''frequency'', ObjectId 114)],
      token_E)"
proof -
  let ?T1 = "(stash token_E)\<lparr>text_attr := ObjectId 110, feature_set := ObjectId 111,
        line := ObjectId 112, phrase := ObjectId 113, frequency := ObjectId 114\<rparr>"
  have g: "example_encoder (Some [''display'']) ?T1 =
     (Inr [(''id'', PyNone), (''text'', ObjectId 110), (''index'', PyInt 3),
           (''feature_set'', ObjectId 111), (''line'', ObjectId 112),
           (''phrase'', ObjectId 113), (''frequency'', ObjectId 114)], ?T1)"
    by (simp add: example_encoder_def stash_def token_defs)
  from json_encode_ok [of heap_0 token_E ?T1 example_encoder "Some [''display'']", OF save_token_E g]
  show ?thesis by (simp only: restored_token_E)
qed


section \<open>Properties of match\<close>

text \<open>
  C4. With \<open>form\<close> populated on both tokens, \<open>A.match(B, "word")\<close> returns the truth value
  of \<open>A.form == B.form\<close>, equality of the two strings; so it returns \<open>True\<close> whenever the
  two forms are identical. The tokens are left as they were.
\<close>

theorem match_word:
  "form A = Some fa \<Longrightarrow> form B = Some fb \<Longrightarrow> match ''word'' (A, B) = (Inr (fa = fb), A, B)"
  by (simp add: match_word_eq word_eq)

theorem match_word_witness:
  "form token_A = Some ''amo'' \<and> form token_B = Some ''habeo''
   \<and> match ''word'' (token_A, token_B) = (Inr False, token_A, token_B)
   \<and> match ''word'' (token_A, token_A) = (Inr True, token_A, token_A)"
  using match_word [of token_A "''amo''" token_B "''habeo''"]
    match_word [of token_A "''amo''" token_A "''amo''"]
  by (simp add: token_defs)

text \<open>
  C2. For a feature other than \<open>word\<close>, \<open>lemmata\<close>, \<open>semantic\<close> and \<open>sound\<close>
  (\<open>lemmata + semantic\<close> or any unrecognised name), with \<open>lemmata\<close> and \<open>semantic\<close>
  populated on both tokens, \<open>match\<close> returns \<open>True\<close> exactly when the lemmata sets
  intersect and the semantic sets intersect: the conjunction of the two tests.
\<close>

theorem match_fallback:
  assumes "f \<noteq> ''word''" "f \<noteq> ''lemmata''" "f \<noteq> ''semantic''" "f \<noteq> ''sound''"
    and "lemmata A = Some la" "lemmata B = Some lb"
    and "semantic A = Some sa" "semantic B = Some sb"
  shows "match f (A, B) = (Inr (set la \<inter> set lb \<noteq> {} \<and> set sa \<inter> set sb \<noteq> {}), A, B)"
  unfolding match_other_eq [OF assms(1-4)] using assms(5-8)
  by (simp add: fallback_eq intersects_eq)

text \<open>
  The lemmata of the two example tokens share \<open>amare\<close>, their semantic tags share nothing:
  the result is \<open>False\<close>, where a disjunction would give \<open>True\<close>.
\<close>

theorem match_fallback_witness:
  "''lemmata + semantic'' \<noteq> ''word'' \<and> ''lemmata + semantic'' \<noteq> ''lemmata''
   \<and> ''lemmata + semantic'' \<noteq> ''semantic'' \<and> ''lemmata + semantic'' \<noteq> ''sound''
   \<and> lemmata token_A = Some [''amo'', ''amare''] \<and> lemmata token_B = Some [''amare'', ''habeo'']
   \<and> semantic token_A = Some [''love''] \<and> semantic token_B = Some [''have'']
   \<and> match ''lemmata + semantic'' (token_A, token_B) = (Inr False, token_A, token_B)"
  using match_fallback [of "''lemmata + semantic''" token_A "[''amo'', ''amare'']"
      token_B "[''amare'', ''habeo'']" "[''love'']" "[''have'']"]
  by (simp add: token_defs)

text \<open>
  C5. With \<open>lemmata\<close> populated on both tokens, \<open>A.match(B, "lemmata")\<close> returns \<open>True\<close>
  exactly when the two lemmata sets share an element; and for every feature
  \<open>A.match(B, feature)\<close> and \<open>B.match(A, feature)\<close> have the same outcome (the same truth
  value, or the same exception when an attribute is missing).
\<close>

theorem match_lemmata_symmetric:
  "(lemmata A = Some la \<longrightarrow> lemmata B = Some lb \<longrightarrow>
      fst (match ''lemmata'' (A, B)) = Inr (set la \<inter> set lb \<noteq> {}))
   \<and> fst (match f (A, B)) = fst (match f (B, A))"
proof
  show "lemmata A = Some la \<longrightarrow> lemmata B = Some lb \<longrightarrow>
      fst (match ''lemmata'' (A, B)) = Inr (set la \<inter> set lb \<noteq> {})"
    by (simp add: match_lemmata_eq intersects_eq)
  show "fst (match f (A, B)) = fst (match f (B, A))"
  proof (cases f rule: match_cases)
    case 1
    then show ?thesis by (simp only: match_word_eq) (rule word_sym)
  next
    case 2
    then show ?thesis by (simp only: match_lemmata_eq) (rule intersects_sym)
  next
    case 3
    then show ?thesis by (simp only: match_semantic_eq) (rule intersects_sym)
  next
    case 4
    then show ?thesis by (simp only: match_sound_eq) (rule intersects_sym)
  next
    case 5
    show ?thesis unfolding match_other_eq [OF 5] by (rule fallback_sym)
  qed
qed

theorem match_lemmata_symmetric_witness:
  "lemmata token_A = Some [''amo'', ''amare''] \<and> lemmata token_B = Some [''amare'', ''habeo'']
   \<and> fst (match ''lemmata'' (token_A, token_B)) = Inr True
   \<and> fst (match ''lemmata'' (token_B, token_A)) = Inr True"
proof -
  have a: "lemmata token_A = Some [''amo'', ''amare'']"
    and b: "lemmata token_B = Some [''amare'', ''habeo'']"
    by (simp_all add: token_defs)
  have s: "set [''amo'', ''amare''] \<inter> set [''amare'', ''habeo''] \<noteq> {}"
    by simp
  from match_lemmata_symmetric [of token_A "[''amo'', ''amare'']" token_B
      "[''amare'', ''habeo'']" "''lemmata''"] a b s
  show ?thesis by auto
qed

text \<open>
  C9. With the attributes that the feature's branch reads populated on both tokens,
  \<open>A.match(B, feature)\<close> returns a boolean and leaves both tokens as they were; the
  tokens are in fact left as they were whatever the outcome.
\<close>

theorem match_no_side_effects:
  "(populated f A \<longrightarrow> populated f B \<longrightarrow> (\<exists>b. match f (A, B) = (Inr b, A, B)))
   \<and> snd (match f (A, B)) = (A, B)"
proof
  show "populated f A \<longrightarrow> populated f B \<longrightarrow> (\<exists>b. match f (A, B) = (Inr b, A, B))"
  proof (cases f rule: match_cases)
    case 5
    show ?thesis unfolding match_other_eq [OF 5] using 5
      by (auto simp add: fallback_eq intersects_eq populated_def)
  qed (auto simp add: match_named_eqs word_eq intersects_eq populated_def)
  show "snd (match f (A, B)) = (A, B)" by (rule match_state)
qed

theorem match_no_side_effects_witness:
  "populated ''sound'' token_A \<and> populated ''sound'' token_B
   \<and> (\<exists>b. match ''sound'' (token_A, token_B) = (Inr b, token_A, token_B))"
  using match_no_side_effects [of "''sound''" token_A token_B]
  by (simp add: populated_def token_defs)

text \<open>
  C8. The constructor assigns none of \<open>form\<close>, \<open>lemmata\<close>, \<open>semantic\<close>, \<open>sound\<close>. On two
  tokens on which they were never assigned, \<open>match\<close> raises \<open>AttributeError\<close> for every
  feature, at the first attribute its branch reads. \<open>match\<close> checks nothing beforehand:
  it can only return a value when that attribute is present on both tokens.
\<close>

theorem match_unpopulated:
  "unenriched (Token_init i txt idx disp fs ln phr freq)
   \<and> (unenriched A \<longrightarrow> unenriched B \<longrightarrow>
        match f (A, B) =
          (Inl (AttributeError (if f = ''word'' then ''form''
                                else if f = ''semantic'' then ''semantic''
                                else if f = ''sound'' then ''sound'' else ''lemmata'')), A, B))
   \<and> (fst (match f (A, B)) = Inr r \<longrightarrow>
        (if f = ''word'' then form A \<noteq> None \<and> form B \<noteq> None
         else if f = ''semantic'' then semantic A \<noteq> None \<and> semantic B \<noteq> None
         else if f = ''sound'' then sound A \<noteq> None \<and> sound B \<noteq> None
         else lemmata A \<noteq> None \<and> lemmata B \<noteq> None))"
proof (intro conjI)
  show "unenriched (Token_init i txt idx disp fs ln phr freq)"
    by (simp add: unenriched_def Token_init_def Entity_init_def)
  show "unenriched A \<longrightarrow> unenriched B \<longrightarrow>
        match f (A, B) =
          (Inl (AttributeError (if f = ''word'' then ''form''
                                else if f = ''semantic'' then ''semantic''
                                else if f = ''sound'' then ''sound'' else ''lemmata'')), A, B)"
  proof (cases f rule: match_cases)
    case 5
    show ?thesis unfolding match_other_eq [OF 5] using 5
      by (simp add: fallback_eq intersects_eq unenriched_def)
  qed (simp_all add: match_named_eqs word_eq intersects_eq unenriched_def)
  show "fst (match f (A, B)) = Inr r \<longrightarrow>
        (if f = ''word'' then form A \<noteq> None \<and> form B \<noteq> None
         else if f = ''semantic'' then semantic A \<noteq> None \<and> semantic B \<noteq> None
         else if f = ''sound'' then sound A \<noteq> None \<and> sound B \<noteq> None
         else lemmata A \<noteq> None \<and> lemmata B \<noteq> None)"
  proof (cases f rule: match_cases)
    case 5
    show ?thesis unfolding match_other_eq [OF 5] using 5
      by (auto simp add: fallback_eq intersects_eq split: option.splits)
  qed (auto simp add: match_named_eqs word_eq intersects_eq split: option.splits)
qed

theorem match_unpopulated_witness:
  "unenriched (Token_init PyNone (ObjectId 7) (PyInt 0) (PyStr ''Amo'') PyNone PyNone PyNone PyNone)
   \<and> unenriched (Token_init PyNone (ObjectId 7) (PyInt 1) (PyStr ''te'') PyNone PyNone PyNone PyNone)
   \<and> fst (match ''semantic''
        (Token_init PyNone (ObjectId 7) (PyInt 0) (PyStr ''Amo'') PyNone PyNone PyNone PyNone,
         Token_init PyNone (ObjectId 7) (PyInt 1) (PyStr ''te'') PyNone PyNone PyNone PyNone))
       = Inl (AttributeError ''semantic'')
   \<and> fst (match ''word'' (token_C, token_D)) = Inr True
   \<and> form token_C \<noteq> None \<and> form token_D \<noteq> None"
proof -
  let ?A = "Token_init PyNone (ObjectId 7) (PyInt 0) (PyStr ''Amo'') PyNone PyNone PyNone PyNone"
  let ?B = "Token_init PyNone (ObjectId 7) (PyInt 1) (PyStr ''te'') PyNone PyNone PyNone PyNone"
  have u: "unenriched ?A" "unenriched ?B"
    by (simp_all add: unenriched_def Token_init_def Entity_init_def)
  have w: "fst (match ''word'' (token_C, token_D)) = Inr True"
    by (simp add: match_word_eq word_eq token_defs)
  from match_unpopulated [of PyNone "ObjectId 7" "PyInt 0" "PyStr ''Amo''" PyNone PyNone PyNone
      PyNone ?A ?B "''semantic''" True] u
  have 1: "fst (match ''semantic'' (?A, ?B)) = Inl (AttributeError ''semantic'')" by simp
  from match_unpopulated [of PyNone "ObjectId 7" "PyInt 0" "PyStr ''Amo''" PyNone PyNone PyNone
      PyNone token_C token_D "''word''" True] w
  have 2: "form token_C \<noteq> None \<and> form token_D \<noteq> None" by simp
  from u w 1 2 show ?thesis by simp
qed

text \<open>
  C10. Each branch of \<open>match\<close> reads only the attributes of its feature. With \<open>form\<close>
  populated on both tokens and \<open>lemmata\<close>, \<open>semantic\<close>, \<open>sound\<close> never assigned on either,
  \<open>A.match(B, "word")\<close> returns the truth value of the equality of the forms, while
  every other feature raises \<open>AttributeError\<close> on the same two tokens.
\<close>

theorem match_word_needs_form_only:
  assumes "form A = Some fa" "form B = Some fb"
    and "lemmata A = None" "semantic A = None" "sound A = None"
    and "lemmata B = None" "semantic B = None" "sound B = None"
  shows "match ''word'' (A, B) = (Inr (fa = fb), A, B)
     \<and> (\<forall>f. f \<noteq> ''word'' \<longrightarrow> (\<exists>name. match f (A, B) = (Inl (AttributeError name), A, B)))"
proof (intro conjI allI impI)
  show "match ''word'' (A, B) = (Inr (fa = fb), A, B)"
    using assms(1,2) by (simp add: match_word_eq word_eq)
  fix f :: string
  assume nw: "f \<noteq> ''word''"
  show "\<exists>name. match f (A, B) = (Inl (AttributeError name), A, B)"
  proof (cases f rule: match_cases)
    case 1
    with nw show ?thesis by simp
  next
    case 5
    show ?thesis unfolding match_other_eq [OF 5] using assms
      by (simp add: fallback_eq intersects_eq)
  qed (simp_all add: match_named_eqs intersects_eq assms)
qed

theorem match_word_needs_form_only_witness:
  "form token_C = Some ''arma'' \<and> form token_D = Some ''arma''
   \<and> lemmata token_C = None \<and> semantic token_C = None \<and> sound token_C = None
   \<and> lemmata token_D = None \<and> semantic token_D = None \<and> sound token_D = None
   \<and> match ''word'' (token_C, token_D) = (Inr True, token_C, token_D)
   \<and> (\<exists>name. match ''lemmata'' (token_C, token_D) = (Inl (AttributeError name), token_C, token_D))"
proof -
  have h: "form token_C = Some ''arma''" "form token_D = Some ''arma''"
    "lemmata token_C = None" "semantic token_C = None" "sound token_C = None"
    "lemmata token_D = None" "semantic token_D = None" "sound token_D = None"
    by (simp_all add: token_defs)
  from match_word_needs_form_only [OF h] h show ?thesis by simp
qed


section \<open>Properties of json_encode\<close>

text \<open>
  C3. On a token whose five reference fields hold full entities, with a base encoder that
  leaves \<open>_ignore\<close> alone, a call of \<open>json_encode\<close> that returns leaves each of the five
  fields holding the very reference it held before the call: the same object, not an equal
  one.
\<close>

theorem json_encode_roundtrip:
  assumes ent: "isinstance_Entity h (text_attr T)" "isinstance_Entity h (feature_set T)"
      "isinstance_Entity h (line T)" "isinstance_Entity h (phrase T)"
      "isinstance_Entity h (frequency T)"
    and base: "leaves_ignore base"
    and ok: "json_encode h base exclude T = (Inr obj, T')"
  shows "text_attr T' = text_attr T \<and> feature_set T' = feature_set T \<and> line T' = line T
         \<and> phrase T' = phrase T \<and> frequency T' = frequency T"
proof -
  obtain r1 T1 where s: "save_ids h (stash T) = (r1, T1)" by (cases "save_ids h (stash T)")
  obtain r2 T2 where b: "base exclude T1 = (r2, T2)" by (cases "base exclude T1")
  from ok s obtain u where r1: "r1 = Inr u"
    by (cases r1) (simp_all add: json_encode_eq)
  from ok s b r1 obtain o2 where r2: "r2 = Inr o2"
    by (cases r2) (simp_all add: json_encode_eq)
  from save_ids_ignore [of h "stash T"] s
  have "ignore T1 = Some [text_attr T, feature_set T, line T, phrase T, frequency T]"
    by (simp add: stash_fields)
  moreover from base b have "ignore T2 = ignore T1"
    unfolding leaves_ignore_def by (metis snd_conv)
  ultimately have "ignore T2 = Some [text_attr T, feature_set T, line T, phrase T, frequency T]"
    by simp
  from restore_refs_eq [OF this] ok s b r1 r2
  have "T' = T2\<lparr>text_attr := text_attr T, feature_set := feature_set T, line := line T,
                phrase := phrase T, frequency := frequency T, ignore := None\<rparr>"
    by (simp add: json_encode_eq)
  then show ?thesis by simp
qed

theorem json_encode_roundtrip_witness:
  "isinstance_Entity heap_0 (text_attr token_E) \<and> isinstance_Entity heap_0 (feature_set token_E)
   \<and> isinstance_Entity heap_0 (line token_E) \<and> isinstance_Entity heap_0 (phrase token_E)
   \<and> isinstance_Entity heap_0 (frequency token_E)
   \<and> leaves_ignore example_encoder
   \<and> text_attr (snd (json_encode heap_0 example_encoder (Some [''display'']) token_E)) = PyRef 10
   \<and> feature_set (snd (json_encode heap_0 example_encoder (Some [''display'']) token_E)) = PyRef 11
   \<and> line (snd (json_encode heap_0 example_encoder (Some [''display'']) token_E)) = PyRef 12
   \<and> phrase (snd (json_encode heap_0 example_encoder (Some [''display'']) token_E)) = PyRef 13
   \<and> frequency (snd (json_encode heap_0 example_encoder (Some [''display'']) token_E)) = PyRef 14"
proof -
  have e: "isinstance_Entity heap_0 (text_attr token_E)"
    "isinstance_Entity heap_0 (feature_set token_E)"
    "isinstance_Entity heap_0 (line token_E)" "isinstance_Entity heap_0 (phrase token_E)"
    "isinstance_Entity heap_0 (frequency token_E)"
    by (simp_all add: token_E_fields heap_0_def)
  from json_encode_roundtrip [OF e leaves_ignore_example encode_token_E] e leaves_ignore_example
  show ?thesis by (simp add: encode_token_E token_E_fields)
qed

text \<open>
  C7. When one of the five reference fields holds a value other than \<open>None\<close> without an
  attribute \<open>id\<close>, \<open>json_encode\<close> raises \<open>AttributeError\<close> in its save step: the outcome
  is that of the save step, whatever the base encoder is. When each of the five fields is
  \<open>None\<close> or a full entity, the save step does not raise.
\<close>

theorem json_encode_raw_reference:
  "(lacks_id h (text_attr T) \<or> lacks_id h (feature_set T) \<or> lacks_id h (line T)
      \<or> lacks_id h (phrase T) \<or> lacks_id h (frequency T) \<longrightarrow>
      fst (save_ids h (stash T)) = Inl (AttributeError ''id'')
      \<and> json_encode h base exclude T = (Inl (AttributeError ''id''), snd (save_ids h (stash T))))
   \<and> ((text_attr T = PyNone \<or> isinstance_Entity h (text_attr T))
      \<and> (feature_set T = PyNone \<or> isinstance_Entity h (feature_set T))
      \<and> (line T = PyNone \<or> isinstance_Entity h (line T))
      \<and> (phrase T = PyNone \<or> isinstance_Entity h (phrase T))
      \<and> (frequency T = PyNone \<or> isinstance_Entity h (frequency T)) \<longrightarrow>
      fst (save_ids h (stash T)) = Inr ())"
proof (intro conjI impI)
  assume raw: "lacks_id h (text_attr T) \<or> lacks_id h (feature_set T) \<or> lacks_id h (line T)
      \<or> lacks_id h (phrase T) \<or> lacks_id h (frequency T)"
  then show f: "fst (save_ids h (stash T)) = Inl (AttributeError ''id'')"
    using save_ids_fail [of h "stash T"] by (simp add: stash_fields)
  then show "json_encode h base exclude T =
      (Inl (AttributeError ''id''), snd (save_ids h (stash T)))"
    by (cases "save_ids h (stash T)") (simp add: json_encode_eq)
next
  assume "(text_attr T = PyNone \<or> isinstance_Entity h (text_attr T))
      \<and> (feature_set T = PyNone \<or> isinstance_Entity h (feature_set T))
      \<and> (line T = PyNone \<or> isinstance_Entity h (line T))
      \<and> (phrase T = PyNone \<or> isinstance_Entity h (phrase T))
      \<and> (frequency T = PyNone \<or> isinstance_Entity h (frequency T))"
  then have "\<not> lacks_id h (text_attr T)" "\<not> lacks_id h (feature_set T)"
    "\<not> lacks_id h (line T)" "\<not> lacks_id h (phrase T)" "\<not> lacks_id h (frequency T)"
    by (simp_all add: entity_not_lacking)
  then show "fst (save_ids h (stash T)) = Inr ()"
    using save_ids_ok [of h "stash T"] by (simp add: stash_fields)
qed

theorem json_encode_raw_reference_witness:
  "lacks_id heap_0 (feature_set token_F)
   \<and> json_encode heap_0 example_encoder None token_F =
       (Inl (AttributeError ''id''), (stash token_F)\<lparr>text_attr := ObjectId 110\<rparr>)
   \<and> isinstance_Entity heap_0 (text_attr token_E) \<and> isinstance_Entity heap_0 (feature_set token_E)
   \<and> isinstance_Entity heap_0 (line token_E) \<and> isinstance_Entity heap_0 (phrase token_E)
   \<and> isinstance_Entity heap_0 (frequency token_E)
   \<and> fst (save_ids heap_0 (stash token_E)) = Inr ()"
proof -
  have l: "lacks_id heap_0 (feature_set token_F)"
    by (simp add: token_F_fields lacks_id_def)
  have e: "isinstance_Entity heap_0 (text_attr token_E)"
    "isinstance_Entity heap_0 (feature_set token_E)"
    "isinstance_Entity heap_0 (line token_E)" "isinstance_Entity heap_0 (phrase token_E)"
    "isinstance_Entity heap_0 (frequency token_E)"
    by (simp_all add: token_E_fields heap_0_def)
  from json_encode_raw_reference [of heap_0 token_F example_encoder None] l
  have 1: "json_encode heap_0 example_encoder None token_F =
       (Inl (AttributeError ''id''), (stash token_F)\<lparr>text_attr := ObjectId 110\<rparr>)"
    by (simp add: save_token_F)
  from json_encode_raw_reference [of heap_0 token_E example_encoder None] e
  have 2: "fst (save_ids heap_0 (stash token_E)) = Inr ()"
    by simp
  from l e 1 2 show ?thesis by simp
qed

text \<open>
  C1, as the code has it. \<open>json_encode\<close> has no handler around the base encoder. When the
  save step raises, the exception leaves \<open>json_encode\<close> with the token as the save step
  left it; when the base encoder raises, with the token as the base encoder left it; no
  field is restored in either case. When both complete (and the base encoder has left
  \<open>_ignore\<close> alone), the five fields are restored to their values from before the call and
  \<open>_ignore\<close> is deleted.
\<close>

theorem json_encode_restores_on_success:
  "(save_ids h (stash T) = (Inl e, T1) \<longrightarrow> json_encode h base exclude T = (Inl e, T1))
   \<and> (save_ids h (stash T) = (Inr (), T1) \<longrightarrow> base exclude T1 = (Inl e, T2) \<longrightarrow>
        json_encode h base exclude T = (Inl e, T2))
   \<and> (save_ids h (stash T) = (Inr (), T1) \<longrightarrow> base exclude T1 = (Inr obj, T2) \<longrightarrow>
        ignore T2 = ignore T1 \<longrightarrow>
        json_encode h base exclude T =
          (Inr obj, T2\<lparr>text_attr := text_attr T, feature_set := feature_set T, line := line T,
                       phrase := phrase T, frequency := frequency T, ignore := None\<rparr>))"
proof (intro conjI impI)
  assume "save_ids h (stash T) = (Inl e, T1)"
  then show "json_encode h base exclude T = (Inl e, T1)"
    by (simp add: json_encode_eq)
next
  assume "save_ids h (stash T) = (Inr (), T1)" "base exclude T1 = (Inl e, T2)"
  then show "json_encode h base exclude T = (Inl e, T2)"
    by (simp add: json_encode_eq)
next
  assume "save_ids h (stash T) = (Inr (), T1)" "base exclude T1 = (Inr obj, T2)"
    "ignore T2 = ignore T1"
  then show "json_encode h base exclude T =
          (Inr obj, T2\<lparr>text_attr := text_attr T, feature_set := feature_set T, line := line T,
                       phrase := phrase T, frequency := frequency T, ignore := None\<rparr>)"
    by (rule json_encode_ok)
qed

theorem json_encode_restores_on_success_witness:
  "json_encode heap_0 example_encoder None token_F =
     (Inl (AttributeError ''id''), (stash token_F)\<lparr>text_attr := ObjectId 110\<rparr>)
   \<and> fst (json_encode heap_0 failing_encoder None token_E) = Inl (Raised ''TypeError'')
   \<and> json_encode heap_0 example_encoder None token_E =
       (Inr [(''id'', PyNone), (''text'', ObjectId 110), (''index'', PyInt 3),
             (''display'', PyStr ''cano''), (''feature_set'', ObjectId 111),
             (''line'', ObjectId 112), (''phrase'', ObjectId 113), (''frequency'', ObjectId 114)],
        token_E)"
proof -
  let ?T1 = "(stash token_E)\<lparr>text_attr := ObjectId 110, feature_set := ObjectId 111,
        line := ObjectId 112, phrase := ObjectId 113, frequency := ObjectId 114\<rparr>"
  let ?obj = "[(''id'', PyNone), (''text'', ObjectId 110), (''index'', PyInt 3),
             (''display'', PyStr ''cano''), (''feature_set'', ObjectId 111),
             (''line'', ObjectId 112), (''phrase'', ObjectId 113), (''frequency'', ObjectId 114)]"
  have f: "failing_encoder None ?T1 = (Inl (Raised ''TypeError''), ?T1)"
    by (simp add: failing_encoder_def)
  have g: "example_encoder None ?T1 = (Inr ?obj, ?T1)"
    by (simp add: example_encoder_def stash_def token_defs)
  have r: "?T1\<lparr>text_attr := text_attr token_E, feature_set := feature_set token_E,
       line := line token_E, phrase := phrase token_E, frequency := frequency token_E,
       ignore := None\<rparr> = token_E"
    by (simp add: stash_def token_defs)
  from json_encode_restores_on_success [of heap_0 token_F "AttributeError ''id''"
      "(stash token_F)\<lparr>text_attr := ObjectId 110\<rparr>" example_encoder None]
    save_token_F
  have 1: "json_encode heap_0 example_encoder None token_F =
     (Inl (AttributeError ''id''), (stash token_F)\<lparr>text_attr := ObjectId 110\<rparr>)"
    by simp
  from json_encode_restores_on_success [of heap_0 token_E "Raised ''TypeError''" ?T1
      failing_encoder None ?T1] save_token_E f
  have 2: "fst (json_encode heap_0 failing_encoder None token_E) = Inl (Raised ''TypeError'')"
    by simp
  from json_encode_restores_on_success [of heap_0 token_E "Raised ''TypeError''" ?T1
      example_encoder None ?T1 ?obj] save_token_E g r
  have 3: "json_encode heap_0 example_encoder None token_E = (Inr ?obj, token_E)"
    by simp
  from 1 2 3 show ?thesis by simp
qed

text \<open>
  C1, as stated, fails. The base encoder raises on \<open>token_E\<close>: the exception reaches the
  caller and \<open>text\<close> holds the identifier \<open>ObjectId 110\<close>, not the entity at address 10
  that it held before the call. The save step raises on \<open>token_F\<close>, at \<open>feature_set\<close>:
  \<open>text\<close>, substituted one line earlier, holds the identifier as well.
\<close>

theorem json_encode_failure_keeps_ids:
  "fst (json_encode heap_0 failing_encoder None token_E) = Inl (Raised ''TypeError'')
   \<and> text_attr token_E = PyRef 10
   \<and> text_attr (snd (json_encode heap_0 failing_encoder None token_E)) = ObjectId 110
   \<and> fst (json_encode heap_0 example_encoder None token_F) = Inl (AttributeError ''id'')
   \<and> text_attr token_F = PyRef 10
   \<and> text_attr (snd (json_encode heap_0 example_encoder None token_F)) = ObjectId 110"
  by (simp add: json_encode_eq save_token_E save_token_F failing_encoder_def
      token_E_fields token_F_fields)


section \<open>Properties of unique_values\<close>

text \<open>
  C6. \<open>unique_values\<close> returns a mapping with exactly the keys \<open>text\<close> and \<open>index\<close>, and
  leaves the token as it was. \<open>index\<close> is the token's index; \<open>text\<close> is the id of the entity
  when the field \<open>text\<close> holds an entity, and the stored value otherwise. There is no key
  \<open>id\<close> and no key of a feature field. A token that holds the text as an entity and one
  that holds the id of that entity as a raw identifier, with the same index, get the same
  mapping.
\<close>

theorem unique_values_key:
  "(\<exists>m. unique_values h T = (Inr m, T) \<and> dom m = {''text'', ''index''}
        \<and> m ''index'' = Some (index T)
        \<and> (\<forall>a i. text_attr T = PyRef a \<longrightarrow> h a = EntityObj i \<longrightarrow> m ''text'' = Some i)
        \<and> (\<not> isinstance_Entity h (text_attr T) \<longrightarrow> m ''text'' = Some (text_attr T))
        \<and> m ''id'' = None \<and> m ''feature_set'' = None \<and> m ''form'' = None
        \<and> m ''lemmata'' = None \<and> m ''semantic'' = None \<and> m ''sound'' = None)
   \<and> (text_attr T = PyRef a \<longrightarrow> h a = EntityObj i \<longrightarrow> \<not> isinstance_Entity h i \<longrightarrow>
        text_attr T' = i \<longrightarrow> index T' = index T \<longrightarrow>
        fst (unique_values h T) = fst (unique_values h T'))"
proof (intro conjI impI)
  show "\<exists>m. unique_values h T = (Inr m, T) \<and> dom m = {''text'', ''index''}
        \<and> m ''index'' = Some (index T)
        \<and> (\<forall>a i. text_attr T = PyRef a \<longrightarrow> h a = EntityObj i \<longrightarrow> m ''text'' = Some i)
        \<and> (\<not> isinstance_Entity h (text_attr T) \<longrightarrow> m ''text'' = Some (text_attr T))
        \<and> m ''id'' = None \<and> m ''feature_set'' = None \<and> m ''form'' = None
        \<and> m ''lemmata'' = None \<and> m ''semantic'' = None \<and> m ''sound'' = None"
    by (auto simp add: unique_values_eq)
next
  assume "text_attr T = PyRef a" "h a = EntityObj i" "\<not> isinstance_Entity h i"
    "text_attr T' = i" "index T' = index T"
  then show "fst (unique_values h T) = fst (unique_values h T')"
    by (simp add: unique_values_eq)
qed

theorem unique_values_key_witness:
  "text_attr token_E = PyRef 10 \<and> heap_0 10 = EntityObj (ObjectId 110)
   \<and> \<not> isinstance_Entity heap_0 (ObjectId 110)
   \<and> text_attr token_G = ObjectId 110 \<and> index token_G = index token_E
   \<and> fst (unique_values heap_0 token_E) = fst (unique_values heap_0 token_G)
   \<and> (\<exists>m. unique_values heap_0 token_E = (Inr m, token_E) \<and> dom m = {''text'', ''index''}
          \<and> m ''text'' = Some (ObjectId 110) \<and> m ''index'' = Some (PyInt 3))"
proof -
  have h: "text_attr token_E = PyRef 10" "heap_0 10 = EntityObj (ObjectId 110)"
    "\<not> isinstance_Entity heap_0 (ObjectId 110)"
    "text_attr token_G = ObjectId 110" "index token_G = index token_E"
    "index token_E = PyInt 3"
    by (simp_all add: token_defs heap_0_def)
  from unique_values_key [of heap_0 token_E 10 "ObjectId 110" token_G] h
  show ?thesis by auto
qed

end
